theory Spec2Isabelle
  imports Complex_Main
begin

section \<open>Run-time values of the host language\<close>

text \<open>
  The runtime layer (\<^verbatim>\<open>src/ts/runtime.ts\<close>) receives arbitrary values of the host
  language. A number is a finite value, \<^verbatim>\<open>NaN\<close> or one of the two infinities; finite
  values are kept as rationals, and the rounding of the host's arithmetic is left out (the
  checks of the runtime layer look only at the class, the sign and the integrality of a
  number). An object is the list of the properties a read finds on it, an array is its
  list of slots, where \<open>None\<close> is a hole.
\<close>

datatype jsnum = Fin rat | NaN | PosInf | NegInf

datatype val =
    Undefined
  | Null
  | Bool bool
  | Num jsnum
  | Str string
  | Function string
  | Obj "(string \<times> val) list"
  | Arr "val option list"

text \<open>The result of \<^verbatim>\<open>typeof\<close>.\<close>

fun typeof :: "val \<Rightarrow> string" where
  "typeof Undefined = ''undefined''"
| "typeof Null = ''object''"
| "typeof (Bool b) = ''boolean''"
| "typeof (Num n) = ''number''"
| "typeof (Str s) = ''string''"
| "typeof (Function f) = ''function''"
| "typeof (Obj ps) = ''object''"
| "typeof (Arr xs) = ''object''"

text \<open>\<^verbatim>\<open>object instanceof Array\<close>.\<close>

fun instanceofArray :: "val \<Rightarrow> bool" where
  "instanceofArray (Arr xs) = True"
| "instanceofArray v = False"

text \<open>
  A message is a template literal: its fixed text and the values interpolated into it
  (the host's conversion of a value to text is not carried out).
\<close>

datatype piece = T string | V val

type_synonym message = "piece list"

text \<open>The single quote that the messages put around a value.\<close>

definition sq :: string where
  "sq = [CHR 0x27]"

text \<open>
  What a call can raise: the \<^verbatim>\<open>ElementaryRuntimeError\<close> of the runtime layer with its
  message, or the host's own \<^verbatim>\<open>TypeError\<close>, which the host raises when a property of
  \<^verbatim>\<open>null\<close> or \<^verbatim>\<open>undefined\<close> is read.
\<close>

datatype error = ElementaryRuntimeError message | TypeError

subsection \<open>Numbers\<close>

fun num_lt :: "jsnum \<Rightarrow> jsnum \<Rightarrow> bool" where
  "num_lt NaN b = False"
| "num_lt a NaN = False"
| "num_lt (Fin a) (Fin b) = (a < b)"
| "num_lt (Fin a) PosInf = True"
| "num_lt (Fin a) NegInf = False"
| "num_lt PosInf b = False"
| "num_lt NegInf NegInf = False"
| "num_lt NegInf b = True"

definition num_le :: "jsnum \<Rightarrow> jsnum \<Rightarrow> bool" where
  "num_le a b = (a \<noteq> NaN \<and> b \<noteq> NaN \<and> \<not> num_lt b a)"


text \<open>
  \<^verbatim>\<open>x % 1 !== 0\<close>: the remainder of a finite number by one is zero exactly when the
  number is an integer; it is \<^verbatim>\<open>NaN\<close> for \<^verbatim>\<open>NaN\<close> and the infinities.
\<close>

definition is_integer :: "rat \<Rightarrow> bool" where
  "is_integer r = (of_int \<lfloor>r\<rfloor> = r)"

fun rem1_nonzero :: "jsnum \<Rightarrow> bool" where
  "rem1_nonzero (Fin r) = (\<not> is_integer r)"
| "rem1_nonzero n = True"

text \<open>
  \<^verbatim>\<open>n | 0\<close>: the conversion to a signed 32-bit integer (truncation towards zero,
  then wrap-around modulo \<open>2 ^ 32\<close>; \<^verbatim>\<open>NaN\<close> and the infinities give zero).
\<close>

definition trunc :: "rat \<Rightarrow> int" where
  "trunc r = (if r < 0 then \<lceil>r\<rceil> else \<lfloor>r\<rfloor>)"

definition wrap32 :: "int \<Rightarrow> int" where
  "wrap32 i = (let m = i mod 2 ^ 32 in if m \<ge> 2 ^ 31 then m - 2 ^ 32 else m)"

fun toInt32 :: "jsnum \<Rightarrow> int" where
  "toInt32 (Fin r) = wrap32 (trunc r)"
| "toInt32 n = 0"

definition bitor0 :: "jsnum \<Rightarrow> jsnum" where
  "bitor0 n = Fin (of_int (toInt32 n))"

subsection \<open>Reading a property\<close>

text \<open>
  \<^verbatim>\<open>object[index]\<close>. Reading from \<^verbatim>\<open>null\<close> or \<^verbatim>\<open>undefined\<close> raises the host's
  \<^verbatim>\<open>TypeError\<close>. An array is read at a number that is a non-negative integer below its
  length; a hole, and every other index, reads as \<^verbatim>\<open>undefined\<close>. An object is read
  at a text key. Properties of a primitive value are not modelled and read as
  \<^verbatim>\<open>undefined\<close>, except \<^verbatim>\<open>split\<close> on a string.
\<close>

fun slot :: "val option list \<Rightarrow> jsnum \<Rightarrow> val" where
  "slot xs (Fin r) =
     (if is_integer r \<and> 0 \<le> r \<and> nat \<lfloor>r\<rfloor> < length xs
      then (case xs ! nat \<lfloor>r\<rfloor> of None \<Rightarrow> Undefined | Some v \<Rightarrow> v)
      else Undefined)"
| "slot xs n = Undefined"

fun lookup :: "(string \<times> val) list \<Rightarrow> string \<Rightarrow> val" where
  "lookup [] k = Undefined"
| "lookup ((k', v) # ps) k = (if k' = k then v else lookup ps k)"

fun getProp :: "val \<Rightarrow> val \<Rightarrow> error + val" where
  "getProp Undefined k = Inl TypeError"
| "getProp Null k = Inl TypeError"
| "getProp (Arr xs) (Num n) = Inr (slot xs n)"
| "getProp (Obj ps) (Str k) = Inr (lookup ps k)"
| "getProp (Str s) (Str k) =
     Inr (if k = ''split'' then Function ''String.prototype.split'' else Undefined)"
| "getProp v k = Inr Undefined"

section \<open>The runtime layer\<close>

text \<open>
  The scheduler installed by \<^verbatim>\<open>setRunner\<close> is outside the repository; all the runtime
  layer uses of it is \<^verbatim>\<open>higherOrderFunctions.stopifyArray\<close>, a function from an array
  to the wrapped array.
\<close>

record runner =
  stopifyArrayHOF :: "val \<Rightarrow> val"

text \<open>\<^verbatim>\<open>elementaryJSBug\<close> always raises, with a fixed message.\<close>

definition errorMsg :: string where
  "errorMsg = ''You have encountered a potential bug in '' @
     ''ElementaryJS. Please report this to the developers, '' @
     ''along with the following stack trace:'' @ [CHR 0x0A]"

definition elementaryJSBug :: "message \<Rightarrow> error" where
  "elementaryJSBug what = ElementaryRuntimeError [T errorMsg]"

text \<open>\<^verbatim>\<open>getRunner\<close> and \<^verbatim>\<open>stopifyArray\<close>, over the module variable \<^verbatim>\<open>stopifyRunner\<close>.\<close>

definition stopifyArray :: "runner option \<Rightarrow> val \<Rightarrow> error + val" where
  "stopifyArray stopifyRunner array =
     (case stopifyRunner of
        None \<Rightarrow> Inl (elementaryJSBug [T ''Stopify not loaded''])
      | Some r \<Rightarrow> Inr (stopifyArrayHOF r array))"

text \<open>\<^verbatim>\<open>arrayBoundsCheck(object, index)\<close>.\<close>

definition index_invalid :: "val \<Rightarrow> bool" where
  "index_invalid index =
     (case index of
        Num n \<Rightarrow> num_lt n (Fin 0) \<or> rem1_nonzero n
      | _ \<Rightarrow> True)"

definition arrayBoundsCheck :: "val \<Rightarrow> val \<Rightarrow> error + val" where
  "arrayBoundsCheck object index =
     (if \<not> instanceofArray object then
        Inl (ElementaryRuntimeError [T ''array indexing called on a non-array value type''])
      else if index_invalid index then
        Inl (ElementaryRuntimeError [T (''array index '' @ sq), V index, T (sq @ '' is not valid'')])
      else
        (case getProp object index of
           Inl e \<Rightarrow> Inl e
         | Inr v \<Rightarrow>
             if v = Undefined then
               Inl (ElementaryRuntimeError
                      [T (''index '' @ sq), V index, T (sq @ '' is out of array bounds'')])
             else Inr v))"

text \<open>
  \<^verbatim>\<open>dot(object, index)\<close>. For \<^verbatim>\<open>split\<close> on a string the result is the closure
  built by \<^verbatim>\<open>stopifyStringSplit\<close>, kept here as a function value.
\<close>

definition stopifyStringSplit :: "string \<Rightarrow> val" where
  "stopifyStringSplit str = Function (''stopifyStringSplit '' @ str)"

definition dot :: "val \<Rightarrow> val \<Rightarrow> error + val" where
  "dot object index =
     (if typeof object \<noteq> ''object'' \<and> typeof object \<noteq> ''string'' \<and>
         typeof object \<noteq> ''boolean'' \<and> typeof object \<noteq> ''number'' then
        Inl (ElementaryRuntimeError [T ''cannot access member of non-object value types''])
      else
        (case getProp object index of
           Inl e \<Rightarrow> Inl e
         | Inr v \<Rightarrow>
             if v = Undefined then
               Inl (ElementaryRuntimeError
                      [T (''object does not have member '' @ sq), V index, T sq])
             else
               (case object of
                  Str s \<Rightarrow> if index = Str ''split'' then Inr (stopifyStringSplit s) else Inr v
                | _ \<Rightarrow> Inr v)))"



definition param :: "val list \<Rightarrow> nat \<Rightarrow> val" where
  "param arguments i = (if i < length arguments then arguments ! i else Undefined)"

text \<open>The loop \<^verbatim>\<open>for (let i = 0; i < a.length; ++i) { a[i] = v; }\<close>, from \<open>i\<close> on.\<close>

function fill_loop :: "nat \<Rightarrow> val option list \<Rightarrow> val \<Rightarrow> val option list" where
  "fill_loop i a v = (if i < length a then fill_loop (Suc i) (a[i := Some v]) v else a)"
  by pat_completeness auto
termination
  by (relation "measure (\<lambda>(i, a, v). length a - i)") auto

text \<open>
  \<^verbatim>\<open>new Array(n)\<close> of the host, called only after the size check: an array of \<open>n\<close>
  holes.
\<close>

fun newArray :: "jsnum \<Rightarrow> val option list" where
  "newArray (Fin r) = replicate (nat \<lfloor>r\<rfloor>) None"
| "newArray n = []"

definition create :: "runner option \<Rightarrow> val list \<Rightarrow> error + val" where
  "create stopifyRunner arguments =
     (if length arguments \<noteq> 2 then
        Inl (ElementaryRuntimeError
               [T ''.create expects 2 arguments, received '',
                V (Num (Fin (of_nat (length arguments))))])
      else
        (case param arguments 0 of
           Num n \<Rightarrow>
             if bitor0 n \<noteq> n \<or> num_le n (Fin 0) then
               Inl (ElementaryRuntimeError [T ''array size must be a positive integer''])
             else stopifyArray stopifyRunner
                    (Arr (fill_loop 0 (newArray n) (param arguments 1)))
         | _ \<Rightarrow> Inl (ElementaryRuntimeError [T ''array size must be a positive integer''])))"

subsection \<open>The embedded test harness\<close>

text \<open>
  The module variables \<^verbatim>\<open>tests\<close>, \<^verbatim>\<open>testsEnabled\<close>, \<^verbatim>\<open>stopifyRunner\<close> and
  \<^verbatim>\<open>timeoutMilli\<close> are the fields of one state, passed to every function that reads or
  writes them and returned updated.
\<close>

text \<open>
  Modelled from the spec: the type \<^verbatim>\<open>TestResult\<close> of \<^verbatim>\<open>types.ts\<close>, which is not
  among the sources; its fields are the ones that \<^verbatim>\<open>test\<close> writes and
  \<^verbatim>\<open>summary\<close> reads.
\<close>

record TestResult =
  failed :: bool
  description :: string
  error :: "string option"

record harness =
  tests :: "TestResult list"
  testsEnabled :: bool
  stopifyRunner :: "runner option"
  timeoutMilli :: int

definition initial_harness :: harness where
  "initial_harness =
     \<lparr>tests = [], testsEnabled = False, stopifyRunner = None, timeoutMilli = 3000\<rparr>"

definition setRunner :: "runner \<Rightarrow> harness \<Rightarrow> harness" where
  "setRunner r h = h\<lparr>stopifyRunner := Some r\<rparr>"


text \<open>The decimal text of a count, as the template literals of \<^verbatim>\<open>summary\<close> print it.\<close>

fun decimal :: "nat \<Rightarrow> string" where
  "decimal n =
     (if n < 10 then [char_of (48 + n)]
      else decimal (n div 10) @ [char_of (48 + n mod 10)])"









section \<open>The syntax tree\<close>

text \<open>
  The Pass (\<^verbatim>\<open>src/ts/visitor.ts\<close>) walks the tree of the parser. The node types the
  visitor looks into have a constructor each; every other node type is \<open>Other\<close>, with
  the name of its type and its children in the order in which they are visited. A function
  (\<open>FunctionNode\<close>: its type, its name and parameters, its body) is what
  \<^verbatim>\<open>getFunctionParent\<close> finds. The first field of a node is the line of
  \<^verbatim>\<open>loc.start\<close>; a node built by the Pass has none. The root is a type of its own, so
  a program is never nested in another one.

  Trees are values: where the Pass puts one node at two places of its output, the two are
  separate copies.
\<close>

type_synonym loc = "nat option"

datatype node =
    Identifier loc string
  | StringLiteral loc string
  | NumericLiteral loc int
  | MemberExpression loc node node bool
  | CallExpression loc node "node list"
  | NewExpression loc node "node list"
  | AssignmentExpression loc string node node
  | BinaryExpression loc string node node
  | UnaryExpression loc string node
  | UpdateExpression loc string bool node
  | SequenceExpression loc "node list"
  | VariableDeclaration loc string "node list"
  | VariableDeclarator loc node "node option"
  | ForStatement loc "node option" "node option" "node option" node
  | WhileStatement loc node node
  | BlockStatement loc "node list"
  | FunctionNode string loc "node list" node
  | Other string loc "node list"

datatype program = Program loc "node list"

fun ntype :: "node \<Rightarrow> string" where
  "ntype (Identifier l x) = ''Identifier''"
| "ntype (StringLiteral l x) = ''StringLiteral''"
| "ntype (NumericLiteral l x) = ''NumericLiteral''"
| "ntype (MemberExpression l obj p c) = ''MemberExpression''"
| "ntype (CallExpression l f args) = ''CallExpression''"
| "ntype (NewExpression l f args) = ''NewExpression''"
| "ntype (AssignmentExpression l op a b) = ''AssignmentExpression''"
| "ntype (BinaryExpression l op a b) = ''BinaryExpression''"
| "ntype (UnaryExpression l op a) = ''UnaryExpression''"
| "ntype (UpdateExpression l op pre a) = ''UpdateExpression''"
| "ntype (SequenceExpression l es) = ''SequenceExpression''"
| "ntype (VariableDeclaration l k ds) = ''VariableDeclaration''"
| "ntype (VariableDeclarator l x i) = ''VariableDeclarator''"
| "ntype (ForStatement l i t u b) = ''ForStatement''"
| "ntype (WhileStatement l t b) = ''WhileStatement''"
| "ntype (BlockStatement l b) = ''BlockStatement''"
| "ntype (FunctionNode ty l ps b) = ty"
| "ntype (Other ty l ks) = ty"

fun node_loc :: "node \<Rightarrow> loc" where
  "node_loc (Identifier l x) = l"
| "node_loc (StringLiteral l x) = l"
| "node_loc (NumericLiteral l x) = l"
| "node_loc (MemberExpression l obj p c) = l"
| "node_loc (CallExpression l f args) = l"
| "node_loc (NewExpression l f args) = l"
| "node_loc (AssignmentExpression l op a b) = l"
| "node_loc (BinaryExpression l op a b) = l"
| "node_loc (UnaryExpression l op a) = l"
| "node_loc (UpdateExpression l op pre a) = l"
| "node_loc (SequenceExpression l es) = l"
| "node_loc (VariableDeclaration l k ds) = l"
| "node_loc (VariableDeclarator l x i) = l"
| "node_loc (ForStatement l i t u b) = l"
| "node_loc (WhileStatement l t b) = l"
| "node_loc (BlockStatement l b) = l"
| "node_loc (FunctionNode ty l ps b) = l"
| "node_loc (Other ty l ks) = l"

fun isIdentifier :: "node \<Rightarrow> bool" where
  "isIdentifier (Identifier l x) = True"
| "isIdentifier n = False"

fun isMemberExpression :: "node \<Rightarrow> bool" where
  "isMemberExpression (MemberExpression l obj p c) = True"
| "isMemberExpression n = False"

fun isBlockStatement :: "node \<Rightarrow> bool" where
  "isBlockStatement (BlockStatement l b) = True"
| "isBlockStatement n = False"

section \<open>The visitor\<close>

subsection \<open>Operators\<close>

definition generalOperators :: "string list" where
  "generalOperators = [''=='', ''!='']"

definition numOrStringOperators :: "string list" where
  "numOrStringOperators = [''+'']"

definition numOperators :: "string list" where
  "numOperators = [''<='', ''>='', ''<'', ''>'', ''<<'', ''>>'', ''>>>'', ''-'', ''*'',
     ''/'', ''%'', ''&'', ''|'', ''^'']"

definition allowedBinaryOperators :: "string list" where
  "allowedBinaryOperators = generalOperators @ numOrStringOperators @ numOperators"

subsection \<open>The visitor state\<close>

text \<open>
  Modelled from the spec: the type \<^verbatim>\<open>ElementarySyntaxError\<close> of \<^verbatim>\<open>types.ts\<close>,
  which is not among the sources; its fields are the ones that \<^verbatim>\<open>State.error\<close>
  writes.
\<close>

record ElementarySyntaxError =
  line :: nat
  message :: string

record opts =
  isOnline :: bool
  runTests :: bool

text \<open>
  \<^verbatim>\<open>elem\<close> is the \<^verbatim>\<open>State\<close> object, whose only data is the list \<^verbatim>\<open>errors\<close> (its
  \<^verbatim>\<open>kind\<close> is the constant \<^verbatim>\<open>'error'\<close>). Two more fields stand for the scope of the
  traversal engine: \<open>uids\<close> counts the identifiers that \<^verbatim>\<open>generateUidIdentifier\<close> has
  made, and \<open>pushed\<close> holds the declarations that the Pass has pushed onto the body of
  the enclosing function or program, which the engine does not visit.
\<close>

record S =
  elem :: "ElementarySyntaxError list"
  opts :: opts
  uids :: nat
  pushed :: "node list"

text \<open>
  What the Pass can throw: a host \<^verbatim>\<open>Error\<close> with its text, the host's
  \<^verbatim>\<open>TypeError\<close> (reading \<^verbatim>\<open>loc.start\<close> of a node that has no \<^verbatim>\<open>loc\<close>), or the
  \<^verbatim>\<open>State\<close> object with its errors.
\<close>

datatype failure =
    HostError string
  | HostTypeError
  | ThrownState "ElementarySyntaxError list"

text \<open>A computation of the Pass: out of fuel, a throw, or a value.\<close>

datatype 'a outcome = OutOfFuel | Raise failure | Return 'a

fun and_then :: "'a outcome \<Rightarrow> ('a \<Rightarrow> 'b outcome) \<Rightarrow> 'b outcome" where
  "and_then OutOfFuel f = OutOfFuel"
| "and_then (Raise e) f = Raise e"
| "and_then (Return x) f = f x"

text \<open>\<^verbatim>\<open>State.error(path, message)\<close>.\<close>

definition State_error :: "node \<Rightarrow> string \<Rightarrow> S \<Rightarrow> S outcome" where
  "State_error n m st =
     (case node_loc n of
        None \<Rightarrow> Raise HostTypeError
      | Some l \<Rightarrow> Return (st\<lparr>elem := elem st @ [\<lparr>line = l, message = m\<rparr>]\<rparr>))"

subsection \<open>Helpers of the visitor\<close>

definition dynCheck :: "string \<Rightarrow> node list \<Rightarrow> node" where
  "dynCheck name args =
     CallExpression None
       (MemberExpression None (Identifier None ''rts'') (Identifier None name) False) args"

definition rtsExpression :: "S \<Rightarrow> node" where
  "rtsExpression st =
     (if isOnline (opts st) then Identifier None ''elementaryjs''
      else CallExpression None (Identifier None ''require'')
             [StringLiteral None ''./runtime''])"

definition unassign :: "string \<Rightarrow> string outcome" where
  "unassign op =
     (if op = ''+='' then Return ''+''
      else if op = ''-='' then Return ''-''
      else if op = ''*='' then Return ''*''
      else if op = ''/='' then Return ''/''
      else if op = ''%='' then Return ''%''
      else Raise (HostError ''should not happen''))"

text \<open>
  \<^verbatim>\<open>enclosingScopeBlock(path).push(decl)\<close>: \<open>fparent\<close> is the type of the node that
  \<^verbatim>\<open>getFunctionParent\<close> returns.
\<close>

definition enclosingScopeBlock_push :: "string \<Rightarrow> node \<Rightarrow> S \<Rightarrow> S outcome" where
  "enclosingScopeBlock_push fparent decl st =
     (if fparent = ''Program'' then Return (st\<lparr>pushed := pushed st @ [decl]\<rparr>)
      else if fparent = ''FunctionExpression'' \<or> fparent = ''FunctionDeclaration'' \<or>
              fparent = ''ObjectMethod'' then
        Return (st\<lparr>pushed := pushed st @ [decl]\<rparr>)
      else Raise (HostError (''parent is a '' @ fparent)))"

text \<open>
  \<^verbatim>\<open>path.scope.generateUidIdentifier('tmp')\<close>: the names are \<^verbatim>\<open>_tmp\<close>, \<^verbatim>\<open>_tmp2\<close>,
  \<^verbatim>\<open>_tmp3\<close> and so on (the engine also passes over a name that the program uses, which
  is not modelled).
\<close>

definition uidName :: "nat \<Rightarrow> string" where
  "uidName i = (if i > 1 then ''_tmp'' @ decimal i else ''_tmp'')"

definition generateUidIdentifier :: "S \<Rightarrow> node \<times> S" where
  "generateUidIdentifier st =
     (Identifier None (uidName (Suc (uids st))), st\<lparr>uids := Suc (uids st)\<rparr>)"

fun propertyAsString :: "node \<Rightarrow> node" where
  "propertyAsString (MemberExpression l obj p computed) =
     (if computed then p
      else (case p of Identifier l' name \<Rightarrow> StringLiteral None name
            | _ \<Rightarrow> StringLiteral None []))"
| "propertyAsString n = n"

text \<open>
  \<open>propertyAsString\<close> is called on member expressions only, and the parser gives a
  member expression that is not computed an identifier as its property; the other cases
  are there to make the function total.
\<close>

subsection \<open>The handlers\<close>

text \<open>
  What a handler tells the traversal engine: \<open>Continue\<close> (the node, as the handler
  left it), \<open>Skip\<close> (\<^verbatim>\<open>path.skip()\<close>), \<open>Replace\<close> (\<^verbatim>\<open>path.replaceWith\<close> alone: the
  engine visits the new node) and \<open>ReplaceSkip\<close> (\<^verbatim>\<open>path.replaceWith\<close> followed by
  \<^verbatim>\<open>path.skip()\<close>: the new node is not visited).
\<close>

datatype action = Continue node | Skip node | Replace node | ReplaceSkip node

text \<open>
  Where a node sits: the type of its parent, the key of the parent under which it is
  held, and the type of the enclosing function or program.
\<close>

record place =
  parentType :: string
  parentKey :: string
  functionParent :: string

definition VariableDeclarator_enter :: "node \<Rightarrow> S \<Rightarrow> (action \<times> S) outcome" where
  "VariableDeclarator_enter n st =
     (case n of
        VariableDeclarator l ident init \<Rightarrow>
          (case ident of
             Identifier l' x \<Rightarrow>
               if init = None then
                 and_then
                   (State_error n (''You must initialize the variable '' @ sq @ x @ sq @ ''.'') st)
                   (\<lambda>st'. Return (Continue n, st'))
               else Return (Continue n, st)
           | _ \<Rightarrow>
               and_then (State_error n ''Do not use destructuring patterns.'' st)
                 (\<lambda>st'. Return (Continue n, st')))
      | _ \<Rightarrow> Return (Continue n, st))"

definition CallExpression_enter :: "node \<Rightarrow> S \<Rightarrow> (action \<times> S) outcome" where
  "CallExpression_enter n st =
     (case n of
        CallExpression l (Identifier l' name) args \<Rightarrow>
          if name = ''Array'' then
            and_then
              (State_error n
                 (''You must use the '' @ sq @ ''new'' @ sq @ '' keyword to create a new array.'')
                 st)
              (\<lambda>st'. Return (Continue n, st'))
          else Return (Continue n, st)
      | _ \<Rightarrow> Return (Continue n, st))"

definition MemberExpression_exit :: "place \<Rightarrow> node \<Rightarrow> S \<Rightarrow> (action \<times> S) outcome" where
  "MemberExpression_exit pl n st =
     (case n of
        MemberExpression l o' p computed \<Rightarrow>
          if (parentType pl = ''UpdateExpression'' \<and> parentKey pl = ''argument'') \<or>
             (parentType pl = ''AssignmentExpression'' \<and> parentKey pl = ''left'') then
            Return (Continue n, st)
          else if parentType pl = ''CallExpression'' then Return (Continue n, st)
          else if computed = False then
            (case p of
               Identifier l' name \<Rightarrow>
                 Return (ReplaceSkip (dynCheck ''dot'' [o', StringLiteral None name]), st)
             | _ \<Rightarrow> Raise (HostError ''ElementaryJS expected id. in MemberExpression''))
          else Return (ReplaceSkip (dynCheck ''arrayBoundsCheck'' [o', p]), st)
      | _ \<Rightarrow> Return (Continue n, st))"

definition allowed :: "string list" where
  "allowed = [''='', ''+='', ''-='', ''*='', ''/='', ''%='']"

definition AssignmentExpression_enter :: "place \<Rightarrow> node \<Rightarrow> S \<Rightarrow> (action \<times> S) outcome" where
  "AssignmentExpression_enter pl n st =
     (case n of
        AssignmentExpression l op left right \<Rightarrow>
          if op \<notin> set allowed then
            and_then (State_error n (''Do not use the '' @ sq @ op @ sq @ '' operator.'') st)
              (\<lambda>st'. Return (Skip n, st'))
          else if \<not> isIdentifier left \<and> \<not> isMemberExpression left then
            and_then (State_error n ''Do not use patterns'' st)
              (\<lambda>st'. Return (Skip n, st'))
          else if op = ''='' then Return (Continue n, st)
          else if isIdentifier left then
            and_then (unassign op)
              (\<lambda>op'. Return
                 (Replace (AssignmentExpression None ''='' left
                             (BinaryExpression None op' left right)), st))
          else
            (case left of
               MemberExpression l' obj prop computed \<Rightarrow>
                 (case generateUidIdentifier st of
                    (tmp, st1) \<Rightarrow>
                      and_then
                        (enclosingScopeBlock_push (functionParent pl)
                           (VariableDeclaration None ''var'' [VariableDeclarator None tmp None])
                           st1)
                        (\<lambda>st2. and_then (unassign op)
                           (\<lambda>op'. Return
                              (Replace
                                 (SequenceExpression None
                                    [AssignmentExpression None ''='' tmp obj,
                                     AssignmentExpression None ''=''
                                       (MemberExpression None tmp prop computed)
                                       (BinaryExpression None op'
                                          (MemberExpression None tmp prop computed)
                                          right)]), st2))))
             | _ \<Rightarrow> Return (Continue n, st))
      | _ \<Rightarrow> Return (Continue n, st))"

definition AssignmentExpression_exit :: "node \<Rightarrow> S \<Rightarrow> (action \<times> S) outcome" where
  "AssignmentExpression_exit n st =
     (case n of
        AssignmentExpression l op left right \<Rightarrow>
          if op \<noteq> ''='' then Raise (HostError ''desugaring error'')
          else if \<not> isIdentifier left \<and> \<not> isMemberExpression left then
            Raise (HostError ''syntactic check error'')
          else if isIdentifier left then Return (Continue n, st)
          else
            (case left of
               MemberExpression l' obj prop computed \<Rightarrow>
                 if computed then
                   Return (ReplaceSkip (dynCheck ''checkArray'' [obj, prop, right]), st)
                 else
                   Return (ReplaceSkip
                             (dynCheck ''checkMember'' [obj, propertyAsString left, right]), st)
             | _ \<Rightarrow> Return (Continue n, st))
      | _ \<Rightarrow> Return (Continue n, st))"

definition BinaryExpression_enter :: "node \<Rightarrow> S \<Rightarrow> (action \<times> S) outcome" where
  "BinaryExpression_enter n st =
     (case n of
        BinaryExpression l op left right \<Rightarrow>
          if op \<notin> set allowedBinaryOperators then
            and_then (State_error n (''Do not use the '' @ sq @ op @ sq @ '' operator.'') st)
              (\<lambda>st'. Return (Skip n, st'))
          else if op \<in> set generalOperators then
            (if op = ''=='' then Return (Continue (BinaryExpression l ''==='' left right), st)
             else if op = ''!='' then
               Return (Continue (BinaryExpression l ''!=='' left right), st)
             else Return (Continue n, st))
          else Return (Continue n, st)
      | _ \<Rightarrow> Return (Continue n, st))"

definition BinaryExpression_exit :: "node \<Rightarrow> S \<Rightarrow> (action \<times> S) outcome" where
  "BinaryExpression_exit n st =
     (case n of
        BinaryExpression l op left right \<Rightarrow>
          if op \<in> set numOrStringOperators then
            Return (ReplaceSkip
                      (dynCheck ''applyNumOrStringOp'' [StringLiteral None op, left, right]), st)
          else if op \<in> set numOperators then
            Return (ReplaceSkip
                      (dynCheck ''applyNumOp'' [StringLiteral None op, left, right]), st)
          else Return (Continue n, st)
      | _ \<Rightarrow> Return (Continue n, st))"

definition UnaryExpression_enter :: "node \<Rightarrow> S \<Rightarrow> (action \<times> S) outcome" where
  "UnaryExpression_enter n st =
     (case n of
        UnaryExpression l op a \<Rightarrow>
          if op = ''delete'' \<or> op = ''typeof'' then
            and_then (State_error n (''Do not use the '' @ sq @ op @ sq @ '' operator.'') st)
              (\<lambda>st'. Return (Continue n, st'))
          else Return (Continue n, st)
      | _ \<Rightarrow> Return (Continue n, st))"

text \<open>
  The exit handler of \<^verbatim>\<open>NewExpression\<close> ends in \<^verbatim>\<open>path.skip;\<close>, which names the
  method and does not call it: the new node is visited.
\<close>

definition NewExpression_exit :: "node \<Rightarrow> S \<Rightarrow> (action \<times> S) outcome" where
  "NewExpression_exit n st =
     (case n of
        NewExpression l (Identifier l' name) args \<Rightarrow>
          if name = ''Array'' then
            Return (Replace
                      (NewExpression None
                         (MemberExpression None (Identifier None ''rts'')
                            (Identifier None ''SafeArray'') False)
                         args), st)
          else Return (Continue n, st)
      | _ \<Rightarrow> Return (Continue n, st))"

definition UpdateExpression_enter :: "node \<Rightarrow> S \<Rightarrow> (action \<times> S) outcome" where
  "UpdateExpression_enter n st =
     (case n of
        UpdateExpression l op prefix a \<Rightarrow>
          if prefix = False then
            and_then
              (State_error n ''Do not use post-increment or post-decrement operators.'' st)
              (\<lambda>st'. Return (Continue n, st'))
          else Return (Continue n, st)
      | _ \<Rightarrow> Return (Continue n, st))"

definition UpdateExpression_exit :: "node \<Rightarrow> S \<Rightarrow> (action \<times> S) outcome" where
  "UpdateExpression_exit n st =
     (case n of
        UpdateExpression l op prefix a \<Rightarrow>
          if \<not> isIdentifier a \<and> \<not> isMemberExpression a then
            Raise (HostError ''not an l-value in update expression'')
          else if isIdentifier a then
            Return (ReplaceSkip
                      (SequenceExpression None
                         [dynCheck ''updateOnlyNumbers'' [StringLiteral None op, a], n]), st)
          else
            (case a of
               MemberExpression l' obj prop computed \<Rightarrow>
                 Return (ReplaceSkip
                           (dynCheck ''checkUpdateOperand''
                              [StringLiteral None op, obj, propertyAsString a]), st)
             | _ \<Rightarrow> Return (Continue n, st))
      | _ \<Rightarrow> Return (Continue n, st))"

definition loop_enter :: "node \<Rightarrow> node \<Rightarrow> S \<Rightarrow> (action \<times> S) outcome" where
  "loop_enter n body st =
     (if \<not> isBlockStatement body then
        and_then (State_error n ''Loop body must be enclosed in braces.'' st)
          (\<lambda>st'. Return (Continue n, st'))
      else Return (Continue n, st))"

definition VariableDeclaration_enter :: "node \<Rightarrow> S \<Rightarrow> (action \<times> S) outcome" where
  "VariableDeclaration_enter n st =
     (case n of
        VariableDeclaration l kind ds \<Rightarrow>
          if kind \<noteq> ''let'' \<and> kind \<noteq> ''const'' then
            and_then
              (State_error n
                 (''Use '' @ sq @ ''let'' @ sq @ '' or '' @ sq @ ''const'' @ sq @
                  '' to declare a variable.'') st)
              (\<lambda>st'. Return (Continue n, st'))
          else Return (Continue n, st)
      | _ \<Rightarrow> Return (Continue n, st))"

text \<open>The six statement types that are rejected whatever they hold.\<close>

definition banned :: "(string \<times> string) list" where
  "banned =
     [(''ThrowStatement'', ''Do not use the '' @ sq @ ''throw'' @ sq @ '' operator.''),
      (''WithStatement'', ''Do not use the '' @ sq @ ''with'' @ sq @ '' statement.''),
      (''SwitchStatement'', ''Do not use the '' @ sq @ ''switch'' @ sq @ '' statement.''),
      (''LabeledStatement'', ''Do not use labels to alter control-flow''),
      (''ForOfStatement'', ''Do not use for-of loops.''),
      (''ForInStatement'', ''Do not use for-in loops.'')]"

definition banned_enter :: "node \<Rightarrow> S \<Rightarrow> (action \<times> S) outcome" where
  "banned_enter n st =
     (case map_of banned (ntype n) of
        None \<Rightarrow> Return (Continue n, st)
      | Some m \<Rightarrow> and_then (State_error n m st) (\<lambda>st'. Return (Continue n, st')))"

text \<open>The enter and the exit handler of a node, by its type.\<close>

fun enter :: "place \<Rightarrow> node \<Rightarrow> S \<Rightarrow> (action \<times> S) outcome" where
  "enter pl (VariableDeclarator l x i) st = VariableDeclarator_enter (VariableDeclarator l x i) st"
| "enter pl (CallExpression l f args) st = CallExpression_enter (CallExpression l f args) st"
| "enter pl (AssignmentExpression l op a b) st =
     AssignmentExpression_enter pl (AssignmentExpression l op a b) st"
| "enter pl (BinaryExpression l op a b) st = BinaryExpression_enter (BinaryExpression l op a b) st"
| "enter pl (UnaryExpression l op a) st = UnaryExpression_enter (UnaryExpression l op a) st"
| "enter pl (UpdateExpression l op pre a) st =
     UpdateExpression_enter (UpdateExpression l op pre a) st"
| "enter pl (ForStatement l i t u b) st = loop_enter (ForStatement l i t u b) b st"
| "enter pl (WhileStatement l t b) st = loop_enter (WhileStatement l t b) b st"
| "enter pl (VariableDeclaration l k ds) st =
     VariableDeclaration_enter (VariableDeclaration l k ds) st"
| "enter pl (Other ty l ks) st = banned_enter (Other ty l ks) st"
| "enter pl n st = Return (Continue n, st)"

fun exit :: "place \<Rightarrow> node \<Rightarrow> S \<Rightarrow> (action \<times> S) outcome" where
  "exit pl (MemberExpression l obj p c) st = MemberExpression_exit pl (MemberExpression l obj p c) st"
| "exit pl (AssignmentExpression l op a b) st =
     AssignmentExpression_exit (AssignmentExpression l op a b) st"
| "exit pl (BinaryExpression l op a b) st = BinaryExpression_exit (BinaryExpression l op a b) st"
| "exit pl (NewExpression l f args) st = NewExpression_exit (NewExpression l f args) st"
| "exit pl (UpdateExpression l op pre a) st = UpdateExpression_exit (UpdateExpression l op pre a) st"
| "exit pl n st = Return (Continue n, st)"

section \<open>The traversal\<close>

text \<open>
  Modelled from the spec: the traversal engine, a library outside the repository. It is
  modelled on what the specification and the guidelines at the head of
  \<^verbatim>\<open>visitor.ts\<close> say of it: a node is
  entered, then its children are visited in order, then it is left; a node that the enter
  handler has skipped is neither descended into nor left; a node that a handler has
  replaced is visited anew, from its enter handler on, unless the handler has also called
  \<^verbatim>\<open>path.skip()\<close>. The fuel bounds the number of nested visits.
\<close>

definition place_of :: "string \<Rightarrow> string \<Rightarrow> string \<Rightarrow> place" where
  "place_of ty k fp = \<lparr>parentType = ty, parentKey = k, functionParent = fp\<rparr>"

fun visit_list ::
  "(node \<Rightarrow> S \<Rightarrow> (node \<times> S) outcome) \<Rightarrow> node list \<Rightarrow> S \<Rightarrow> (node list \<times> S) outcome" where
  "visit_list v [] st = Return ([], st)"
| "visit_list v (x # xs) st =
     and_then (v x st)
       (\<lambda>(x', st1). and_then (visit_list v xs st1) (\<lambda>(xs', st2). Return (x' # xs', st2)))"

fun visit_opt ::
  "(node \<Rightarrow> S \<Rightarrow> (node \<times> S) outcome) \<Rightarrow> node option \<Rightarrow> S \<Rightarrow> (node option \<times> S) outcome"
  where
  "visit_opt v None st = Return (None, st)"
| "visit_opt v (Some x) st = and_then (v x st) (\<lambda>(x', st1). Return (Some x', st1))"

text \<open>
  The body of a function is a block; the declarations pushed while the function was
  traversed end up behind its statements.
\<close>

fun push_body :: "node \<Rightarrow> node list \<Rightarrow> node" where
  "push_body (BlockStatement l b) ds = BlockStatement l (b @ ds)"
| "push_body n ds = n"

text \<open>
  The children of a node, visited by \<open>v\<close> in the order of the engine's table of keys;
  \<open>fp\<close> is the type of the enclosing function or program.
\<close>

fun children ::
  "(place \<Rightarrow> node \<Rightarrow> S \<Rightarrow> (node \<times> S) outcome) \<Rightarrow> string \<Rightarrow> node \<Rightarrow> S \<Rightarrow> (node \<times> S) outcome"
  where
  "children v fp (Identifier l x) st = Return (Identifier l x, st)"
| "children v fp (StringLiteral l x) st = Return (StringLiteral l x, st)"
| "children v fp (NumericLiteral l x) st = Return (NumericLiteral l x, st)"
| "children v fp (MemberExpression l obj p c) st =
     and_then (v (place_of ''MemberExpression'' ''object'' fp) obj st)
       (\<lambda>(obj', st1). and_then (v (place_of ''MemberExpression'' ''property'' fp) p st1)
          (\<lambda>(p', st2). Return (MemberExpression l obj' p' c, st2)))"
| "children v fp (CallExpression l f args) st =
     and_then (v (place_of ''CallExpression'' ''callee'' fp) f st)
       (\<lambda>(f', st1). and_then (visit_list (v (place_of ''CallExpression'' ''arguments'' fp)) args st1)
          (\<lambda>(args', st2). Return (CallExpression l f' args', st2)))"
| "children v fp (NewExpression l f args) st =
     and_then (v (place_of ''NewExpression'' ''callee'' fp) f st)
       (\<lambda>(f', st1). and_then (visit_list (v (place_of ''NewExpression'' ''arguments'' fp)) args st1)
          (\<lambda>(args', st2). Return (NewExpression l f' args', st2)))"
| "children v fp (AssignmentExpression l op a b) st =
     and_then (v (place_of ''AssignmentExpression'' ''left'' fp) a st)
       (\<lambda>(a', st1). and_then (v (place_of ''AssignmentExpression'' ''right'' fp) b st1)
          (\<lambda>(b', st2). Return (AssignmentExpression l op a' b', st2)))"
| "children v fp (BinaryExpression l op a b) st =
     and_then (v (place_of ''BinaryExpression'' ''left'' fp) a st)
       (\<lambda>(a', st1). and_then (v (place_of ''BinaryExpression'' ''right'' fp) b st1)
          (\<lambda>(b', st2). Return (BinaryExpression l op a' b', st2)))"
| "children v fp (UnaryExpression l op a) st =
     and_then (v (place_of ''UnaryExpression'' ''argument'' fp) a st)
       (\<lambda>(a', st1). Return (UnaryExpression l op a', st1))"
| "children v fp (UpdateExpression l op pre a) st =
     and_then (v (place_of ''UpdateExpression'' ''argument'' fp) a st)
       (\<lambda>(a', st1). Return (UpdateExpression l op pre a', st1))"
| "children v fp (SequenceExpression l es) st =
     and_then (visit_list (v (place_of ''SequenceExpression'' ''expressions'' fp)) es st)
       (\<lambda>(es', st1). Return (SequenceExpression l es', st1))"
| "children v fp (VariableDeclaration l k ds) st =
     and_then (visit_list (v (place_of ''VariableDeclaration'' ''declarations'' fp)) ds st)
       (\<lambda>(ds', st1). Return (VariableDeclaration l k ds', st1))"
| "children v fp (VariableDeclarator l x i) st =
     and_then (v (place_of ''VariableDeclarator'' ''id'' fp) x st)
       (\<lambda>(x', st1). and_then (visit_opt (v (place_of ''VariableDeclarator'' ''init'' fp)) i st1)
          (\<lambda>(i', st2). Return (VariableDeclarator l x' i', st2)))"
| "children v fp (ForStatement l i t u b) st =
     and_then (visit_opt (v (place_of ''ForStatement'' ''init'' fp)) i st)
       (\<lambda>(i', st1). and_then (visit_opt (v (place_of ''ForStatement'' ''test'' fp)) t st1)
          (\<lambda>(t', st2). and_then (visit_opt (v (place_of ''ForStatement'' ''update'' fp)) u st2)
             (\<lambda>(u', st3). and_then (v (place_of ''ForStatement'' ''body'' fp) b st3)
                (\<lambda>(b', st4). Return (ForStatement l i' t' u' b', st4)))))"
| "children v fp (WhileStatement l t b) st =
     and_then (v (place_of ''WhileStatement'' ''test'' fp) t st)
       (\<lambda>(t', st1). and_then (v (place_of ''WhileStatement'' ''body'' fp) b st1)
          (\<lambda>(b', st2). Return (WhileStatement l t' b', st2)))"
| "children v fp (BlockStatement l b) st =
     and_then (visit_list (v (place_of ''BlockStatement'' ''body'' fp)) b st)
       (\<lambda>(b', st1). Return (BlockStatement l b', st1))"
| "children v fp (FunctionNode ty l ps b) st =
     and_then (visit_list (v (place_of ty ''params'' ty)) ps (st\<lparr>pushed := []\<rparr>))
       (\<lambda>(ps', st1). and_then (v (place_of ty ''body'' ty) b st1)
          (\<lambda>(b', st2). Return (FunctionNode ty l ps' (push_body b' (pushed st2)),
                               st2\<lparr>pushed := pushed st\<rparr>)))"
| "children v fp (Other ty l ks) st =
     and_then (visit_list (v (place_of ty ''children'' fp)) ks st)
       (\<lambda>(ks', st1). Return (Other ty l ks', st1))"

fun visit :: "nat \<Rightarrow> place \<Rightarrow> node \<Rightarrow> S \<Rightarrow> (node \<times> S) outcome" where
  "visit 0 pl n st = OutOfFuel"
| "visit (Suc k) pl n st =
     and_then (enter pl n st)
       (\<lambda>(a, st1).
          case a of
            Skip n1 \<Rightarrow> Return (n1, st1)
          | Replace n1 \<Rightarrow> visit k pl n1 st1
          | ReplaceSkip n1 \<Rightarrow> Return (n1, st1)
          | Continue n1 \<Rightarrow>
              and_then (children (visit k) (functionParent pl) n1 st1)
                (\<lambda>(n2, st2).
                   and_then (exit pl n2 st2)
                     (\<lambda>(b, st3).
                        case b of
                          Replace n3 \<Rightarrow> visit k pl n3 st3
                        | ReplaceSkip n3 \<Rightarrow> Return (n3, st3)
                        | Skip n3 \<Rightarrow> Return (n3, st3)
                        | Continue n3 \<Rightarrow> Return (n3, st3))))"

subsection \<open>The program root\<close>

definition Program_enter :: "S \<Rightarrow> S" where
  "Program_enter st = st\<lparr>elem := []\<rparr>"

text \<open>
  The exit handler of the root: the binding of \<^verbatim>\<open>rts\<close> goes before the first
  statement, then the \<^verbatim>\<open>State\<close> is thrown if it holds an error.
\<close>

definition loader_binding :: "S \<Rightarrow> node" where
  "loader_binding st =
     VariableDeclaration None ''var''
       [VariableDeclarator None (Identifier None ''rts'') (Some (rtsExpression st))]"

definition Program_exit :: "program \<Rightarrow> S \<Rightarrow> program outcome" where
  "Program_exit p st =
     (case p of
        Program l body \<Rightarrow>
          let body' = (if length body \<noteq> 0 then loader_binding st # body else body)
          in if length (elem st) > 0 then Raise (ThrownState (elem st))
             else Return (Program l body'))"

text \<open>
  The traversal of a program up to the exit of its root: the statements as rewritten (the
  pushed declarations behind them) and the state.
\<close>

definition initial_state :: "opts \<Rightarrow> S" where
  "initial_state os = \<lparr>elem = [], opts = os, uids = 0, pushed = []\<rparr>"

definition traverse_program :: "nat \<Rightarrow> opts \<Rightarrow> program \<Rightarrow> (program \<times> S) outcome" where
  "traverse_program k os p =
     (case p of
        Program l body \<Rightarrow>
          and_then
            (visit_list (visit k (place_of ''Program'' ''body'' ''Program'')) body
               (Program_enter (initial_state os)))
            (\<lambda>(body', st). Return (Program l (body' @ pushed st), st)))"

text \<open>
  The result of the Pass: \<open>Return\<close> with the rewritten tree, or \<open>Raise\<close> with what was
  thrown; \<open>Raise (ThrownState errors)\<close> is the error object
  \<^verbatim>\<open>{kind: 'error', errors}\<close>.
\<close>

definition compile :: "nat \<Rightarrow> opts \<Rightarrow> program \<Rightarrow> program outcome" where
  "compile k os p = and_then (traverse_program k os p) (\<lambda>(p', st). Program_exit p' st)"

section \<open>Evaluation order and operators of a tree\<close>

text \<open>
  The operands that the host evaluates, in order, when it evaluates an expression made of
  sequences, assignments, member reads and binary operations; every other expression
  counts as one operand. The target of an assignment is not read: of a member target the
  object is evaluated, and the property when it is computed; an identifier target is not
  evaluated.
\<close>

fun trace :: "node \<Rightarrow> node list" where
  "trace (SequenceExpression l es) = concat (map trace es)"
| "trace (AssignmentExpression l op (MemberExpression l' obj p c) r) =
     trace obj @ (if c then trace p else []) @ trace r"
| "trace (AssignmentExpression l op a r) = trace r"
| "trace (MemberExpression l obj p c) = trace obj @ (if c then trace p else [])"
| "trace (BinaryExpression l op a b) = trace a @ trace b"
| "trace n = [n]"

text \<open>The operators of the binary expressions of a tree.\<close>

fun opt_nodes :: "node option \<Rightarrow> node list" where
  "opt_nodes None = []"
| "opt_nodes (Some n) = [n]"

fun kids :: "node \<Rightarrow> node list" where
  "kids (Identifier l x) = []"
| "kids (StringLiteral l x) = []"
| "kids (NumericLiteral l x) = []"
| "kids (MemberExpression l obj p c) = [obj, p]"
| "kids (CallExpression l f args) = f # args"
| "kids (NewExpression l f args) = f # args"
| "kids (AssignmentExpression l op a b) = [a, b]"
| "kids (BinaryExpression l op a b) = [a, b]"
| "kids (UnaryExpression l op a) = [a]"
| "kids (UpdateExpression l op pre a) = [a]"
| "kids (SequenceExpression l es) = es"
| "kids (VariableDeclaration l k ds) = ds"
| "kids (VariableDeclarator l x i) = x # opt_nodes i"
| "kids (ForStatement l i t u b) = opt_nodes i @ opt_nodes t @ opt_nodes u @ [b]"
| "kids (WhileStatement l t b) = [t, b]"
| "kids (BlockStatement l b) = b"
| "kids (FunctionNode ty l ps b) = ps @ [b]"
| "kids (Other ty l ks) = ks"

fun own_operator :: "node \<Rightarrow> string list" where
  "own_operator (BinaryExpression l op a b) = [op]"
| "own_operator n = []"

lemma size_list_mem: "x \<in> set xs \<Longrightarrow> size x \<le> size_list size xs"
  by (induction xs) auto

lemma size_opt_mem: "x \<in> set (opt_nodes i) \<Longrightarrow> size x \<le> size_option size i"
  by (cases i) auto

lemma size_kids: "x \<in> set (kids n) \<Longrightarrow> size x < size n"
  by (cases n) (auto simp: less_Suc_eq_le dest!: size_list_mem size_opt_mem)

function binary_operators :: "node \<Rightarrow> string list" where
  "binary_operators n = own_operator n @ concat (map binary_operators (kids n))"
  by pat_completeness auto
termination
  by (relation "measure size") (auto simp: size_kids)

text \<open>A computation that does not throw the \<^verbatim>\<open>State\<close> object.\<close>

definition quiet :: "'a outcome \<Rightarrow> bool" where
  "quiet m = (\<forall>e. m \<noteq> Raise (ThrownState e))"

section \<open>Invariants of the traversal\<close>

text \<open>
  The predicates of the proof that a successful run leaves no allowed operator behind. A
  node is \<open>finished\<close> when every binary expression in it has a strict operator; the
  declarations pushed onto the enclosing block hold no binary expression at all.
\<close>

declare binary_operators.simps [simp del]

definition strict :: "string list" where
  "strict = [''==='', ''!=='']"

definition finished :: "node \<Rightarrow> bool" where
  "finished n = (set (binary_operators n) \<subseteq> set strict)"


text \<open>
  What the enter handler leaves behind: it only adds diagnostics; it skips a node only
  with a diagnostic; a node it lets through keeps its children and, if it is a binary
  expression, has a strict operator or one that the exit handler rewrites.
\<close>

definition enter_ok :: "node \<Rightarrow> S \<Rightarrow> action \<Rightarrow> S \<Rightarrow> bool" where
  "enter_ok n st a st1 =
     (length (elem st) \<le> length (elem st1) \<and>
      (case a of
         Skip n1 \<Rightarrow> elem st1 \<noteq> [] \<and> pushed st1 = pushed st
       | ReplaceSkip n1 \<Rightarrow> False
       | Continue n1 \<Rightarrow>
           pushed st1 = pushed st \<and> kids n1 = kids n \<and>
           set (own_operator n1) \<subseteq> set strict \<union> set numOrStringOperators \<union> set numOperators
       | Replace n1 \<Rightarrow>
           (pushed st1 = pushed st \<or>
            (\<exists>d. pushed st1 = pushed st @ [d] \<and> binary_operators d = []))))"




section \<open>Properties of the runtime layer\<close>



lemma fill_loop_eq: "i \<le> length a \<Longrightarrow> fill_loop i a v = take i a @ replicate (length a - i) (Some v)"
proof (induction i a v rule: fill_loop.induct)
  case (1 i a v)
  show ?case
  proof (cases "i < length a")
    case True
    then have "fill_loop i a v = fill_loop (Suc i) (a[i := Some v]) v" by simp
    also have "\<dots> = take (Suc i) (a[i := Some v]) @ replicate (length a - Suc i) (Some v)"
      using 1 True by simp
    also have "take (Suc i) (a[i := Some v]) = take i a @ [Some v]"
      using True by (simp add: take_Suc_conv_app_nth)
    also have "(take i a @ [Some v]) @ replicate (length a - Suc i) (Some v) =
               take i a @ replicate (length a - i) (Some v)"
      using True by (simp add: replicate_Suc [symmetric] Suc_diff_Suc del: replicate_Suc)
    finally show ?thesis .
  next
    case False
    with 1(2) have "i = length a" by simp
    then show ?thesis by simp
  qed
qed

lemma fill_loop_new: "fill_loop 0 (replicate n None) v = replicate n (Some v)"
  by (simp add: fill_loop_eq del: fill_loop.simps)

lemma size_ok_iff:
  "(\<not> (bitor0 (Fin r) \<noteq> Fin r \<or> num_le (Fin r) (Fin 0))) \<longleftrightarrow>
   (\<exists>m. r = of_int m \<and> 0 < m \<and> m < 2 ^ 31)"
proof
  assume a: "\<not> (bitor0 (Fin r) \<noteq> Fin r \<or> num_le (Fin r) (Fin 0))"
  then have r: "r = of_int (wrap32 (trunc r))" and pos: "0 < r"
    by (auto simp: bitor0_def num_le_def)
  have "wrap32 (trunc r) < 2 ^ 31"
    by (auto simp: wrap32_def Let_def)
  moreover have "0 < wrap32 (trunc r)" using r pos by (metis of_int_0_less_iff)
  ultimately show "\<exists>m. r = of_int m \<and> 0 < m \<and> m < 2 ^ 31" using r by blast
next
  assume "\<exists>m. r = of_int m \<and> 0 < m \<and> m < 2 ^ 31"
  then obtain m where m: "r = of_int m" "0 < m" "m < 2 ^ 31" by blast
  have "trunc r = m" using m by (simp add: trunc_def)
  moreover have "wrap32 m = m" using m by (simp add: wrap32_def Let_def)
  ultimately show "\<not> (bitor0 (Fin r) \<noteq> Fin r \<or> num_le (Fin r) (Fin 0))"
    using m by (simp add: bitor0_def num_le_def)
qed


lemma is_integer_iff: "is_integer r \<longleftrightarrow> (\<exists>m. r = of_int m)"
  by (auto simp: is_integer_def)

lemma index_invalid_iff:
  "index_invalid i \<longleftrightarrow> \<not> (\<exists>m. i = Num (Fin (of_int m)) \<and> 0 \<le> m)"
proof (cases i)
  case (Num n)
  show ?thesis
  proof (cases n)
    case (Fin r)
    show ?thesis
      unfolding Num Fin index_invalid_def
      by (auto simp: is_integer_iff not_less)
  qed (simp_all add: Num index_invalid_def)
qed (simp_all add: index_invalid_def)

lemma getProp_Arr:
  "0 \<le> m \<Longrightarrow> getProp (Arr xs) (Num (Fin (of_int m))) =
     Inr (if nat m < length xs then (case xs ! nat m of None \<Rightarrow> Undefined | Some v \<Rightarrow> v)
          else Undefined)"
  by (simp add: is_integer_iff)

lemma create_bad_size:
  assumes "\<not> (\<exists>m. n = Num (Fin (of_int m)) \<and> 0 < m \<and> m < 2 ^ 31)"
  shows "create sr [n, v] = Inl (ElementaryRuntimeError [T ''array size must be a positive integer''])"
proof (cases n)
  case (Num x)
  show ?thesis
  proof (cases x)
    case (Fin r)
    have "bitor0 (Fin r) \<noteq> Fin r \<or> num_le (Fin r) (Fin 0)"
      using assms size_ok_iff [of r] unfolding Num Fin by auto
    then show ?thesis unfolding Num Fin by (simp add: create_def param_def)
  qed (simp_all add: Num create_def param_def bitor0_def)
qed (simp_all add: create_def param_def)

lemma create_good_size:
  assumes "0 < m" "m < 2 ^ 31"
  shows "create sr [Num (Fin (of_int m)), v] =
           stopifyArray sr (Arr (replicate (nat m) (Some v)))"
proof -
  have "\<not> (bitor0 (Fin (of_int m)) \<noteq> Fin (of_int m) \<or> num_le (Fin (of_int m)) (Fin 0))"
    using assms size_ok_iff [of "of_int m"] by blast
  then show ?thesis
    by (simp add: create_def param_def fill_loop_new del: fill_loop.simps)
qed

text \<open>
  C6, as the code has it. A read through \<^verbatim>\<open>arrayBoundsCheck\<close> of an array raises when
  the index is not a non-negative integer, and when the slot reads as \<^verbatim>\<open>undefined\<close>
  (it is past the end, a hole, or holds \<^verbatim>\<open>undefined\<close>); otherwise it returns the
  element. \<^verbatim>\<open>create\<close> raises when it has not exactly two arguments and when the size is
  not an integer from \<open>1\<close> to \<open>2 ^ 31 - 1\<close>; otherwise it builds the array of that many
  copies of the value and hands it to the scheduler's wrapper, and raises when no scheduler
  is installed.
\<close>

theorem array_checks:
  "(index_invalid i \<longleftrightarrow> \<not> (\<exists>m. i = Num (Fin (of_int m)) \<and> 0 \<le> m)) \<and>
   (index_invalid i \<longrightarrow>
      arrayBoundsCheck (Arr xs) i =
        Inl (ElementaryRuntimeError [T (''array index '' @ sq), V i, T (sq @ '' is not valid'')])) \<and>
   (\<not> index_invalid i \<longrightarrow> getProp (Arr xs) i = Inr Undefined \<longrightarrow>
      arrayBoundsCheck (Arr xs) i =
        Inl (ElementaryRuntimeError
               [T (''index '' @ sq), V i, T (sq @ '' is out of array bounds'')])) \<and>
   (\<not> index_invalid i \<longrightarrow> getProp (Arr xs) i = Inr w \<longrightarrow> w \<noteq> Undefined \<longrightarrow>
      arrayBoundsCheck (Arr xs) i = Inr w) \<and>
   (0 \<le> k \<longrightarrow>
      getProp (Arr xs) (Num (Fin (of_int k))) =
        Inr (if nat k < length xs
             then (case xs ! nat k of None \<Rightarrow> Undefined | Some u \<Rightarrow> u) else Undefined)) \<and>
   (length args \<noteq> 2 \<longrightarrow>
      create sr args =
        Inl (ElementaryRuntimeError
               [T ''.create expects 2 arguments, received '',
                V (Num (Fin (of_nat (length args))))])) \<and>
   (\<not> (\<exists>m. n = Num (Fin (of_int m)) \<and> 0 < m \<and> m < 2 ^ 31) \<longrightarrow>
      create sr [n, v] =
        Inl (ElementaryRuntimeError [T ''array size must be a positive integer''])) \<and>
   (0 < m \<and> m < 2 ^ 31 \<longrightarrow>
      create (Some r) [Num (Fin (of_int m)), v] =
        Inr (stopifyArrayHOF r (Arr (replicate (nat m) (Some v)))) \<and>
      create None [Num (Fin (of_int m)), v] = Inl (elementaryJSBug [T ''Stopify not loaded'']))"
proof (intro conjI impI)
  show "index_invalid i \<longleftrightarrow> \<not> (\<exists>m. i = Num (Fin (of_int m)) \<and> 0 \<le> m)"
    by (rule index_invalid_iff)
  show "0 \<le> k \<Longrightarrow> getProp (Arr xs) (Num (Fin (of_int k))) =
        Inr (if nat k < length xs
             then (case xs ! nat k of None \<Rightarrow> Undefined | Some u \<Rightarrow> u) else Undefined)"
    by (rule getProp_Arr)
  show "length args \<noteq> 2 \<Longrightarrow> create sr args =
        Inl (ElementaryRuntimeError
               [T ''.create expects 2 arguments, received '',
                V (Num (Fin (of_nat (length args))))])"
    by (simp add: create_def)
  show "\<not> (\<exists>m. n = Num (Fin (of_int m)) \<and> 0 < m \<and> m < 2 ^ 31) \<Longrightarrow>
      create sr [n, v] =
        Inl (ElementaryRuntimeError [T ''array size must be a positive integer''])"
    by (rule create_bad_size)
  show "0 < m \<and> m < 2 ^ 31 \<Longrightarrow> create (Some r) [Num (Fin (of_int m)), v] =
        Inr (stopifyArrayHOF r (Arr (replicate (nat m) (Some v))))"
    by (simp add: create_good_size stopifyArray_def)
  show "0 < m \<and> m < 2 ^ 31 \<Longrightarrow>
      create None [Num (Fin (of_int m)), v] = Inl (elementaryJSBug [T ''Stopify not loaded''])"
    by (simp add: create_good_size stopifyArray_def)
qed (simp_all add: arrayBoundsCheck_def)

theorem array_checks_witness:
  "arrayBoundsCheck (Arr [Some (Num (Fin 7)), None]) (Num (Fin 0)) = Inr (Num (Fin 7)) \<and>
   arrayBoundsCheck (Arr [Some (Num (Fin 7)), None]) (Num (Fin 1)) =
     Inl (ElementaryRuntimeError
            [T (''index '' @ sq), V (Num (Fin 1)), T (sq @ '' is out of array bounds'')]) \<and>
   arrayBoundsCheck (Arr [Some (Num (Fin 7)), None]) (Num (Fin (- 1))) =
     Inl (ElementaryRuntimeError
            [T (''array index '' @ sq), V (Num (Fin (- 1))), T (sq @ '' is not valid'')]) \<and>
   create (Some \<lparr>stopifyArrayHOF = (\<lambda>a. a)\<rparr>) [Num (Fin 3), Num (Fin 0)] =
     Inr (Arr [Some (Num (Fin 0)), Some (Num (Fin 0)), Some (Num (Fin 0))]) \<and>
   create None [Num (Fin 0), Undefined] =
     Inl (ElementaryRuntimeError [T ''array size must be a positive integer'']) \<and>
   create None [Undefined] =
     Inl (ElementaryRuntimeError
            [T ''.create expects 2 arguments, received '', V (Num (Fin 1))])"
proof -
  have a: "\<not> index_invalid (Num (Fin 0))" "\<not> index_invalid (Num (Fin 1))"
    by (simp_all add: index_invalid_def is_integer_def)
  have b: "index_invalid (Num (Fin (- 1)))"
    by (simp add: index_invalid_def is_integer_def)
  have c: "getProp (Arr [Some (Num (Fin 7)), None]) (Num (Fin 0)) = Inr (Num (Fin 7))"
    "getProp (Arr [Some (Num (Fin 7)), None]) (Num (Fin 1)) = Inr Undefined"
    by (simp_all add: is_integer_def)
  have d: "\<not> (\<exists>m::int. Num (Fin 0) = Num (Fin (of_int m)) \<and> 0 < m \<and> m < 2 ^ 31)"
    by auto
  have e: "replicate (nat 3) (Some (Num (Fin 0))) =
           [Some (Num (Fin 0)), Some (Num (Fin 0)), Some (Num (Fin 0))]"
    by (simp add: eval_nat_numeral)
  show ?thesis
    using array_checks [of "Num (Fin 0)" "[Some (Num (Fin 7)), None]" "Num (Fin 7)" 0
        "[Undefined]" None "Num (Fin 0)" Undefined 3 "\<lparr>stopifyArrayHOF = (\<lambda>a. a)\<rparr>"]
      array_checks [of "Num (Fin 1)" "[Some (Num (Fin 7)), None]" "Num (Fin 7)" 0
        "[Undefined]" None "Num (Fin 0)" "Num (Fin 0)" 3 "\<lparr>stopifyArrayHOF = (\<lambda>a. a)\<rparr>"]
      array_checks [of "Num (Fin (- 1))" "[Some (Num (Fin 7)), None]" "Num (Fin 7)" 0
        "[Undefined]" None "Num (Fin 0)" "Num (Fin 0)" 3 "\<lparr>stopifyArrayHOF = (\<lambda>a. a)\<rparr>"]
      a b c d e
    by simp
qed

text \<open>
  C6 as stated fails: with two arguments and the size \<open>3\<close>, \<^verbatim>\<open>create\<close> raises when no
  scheduler is installed; it raises on the positive integer \<open>2 ^ 31\<close>; and a slot that
  holds \<^verbatim>\<open>undefined\<close> is populated, and reading it raises.
\<close>

theorem create_counterexample:
  "create None [Num (Fin 3), Num (Fin 0)] = Inl (ElementaryRuntimeError [T errorMsg]) \<and>
   create (Some \<lparr>stopifyArrayHOF = (\<lambda>a. a)\<rparr>) [Num (Fin 2147483648), Num (Fin 0)] =
     Inl (ElementaryRuntimeError [T ''array size must be a positive integer'']) \<and>
   arrayBoundsCheck (Arr [Some Undefined]) (Num (Fin 0)) =
     Inl (ElementaryRuntimeError
            [T (''index '' @ sq), V (Num (Fin 0)), T (sq @ '' is out of array bounds'')])"
  by (simp add: create_def param_def bitor0_def trunc_def wrap32_def num_le_def stopifyArray_def
      elementaryJSBug_def arrayBoundsCheck_def index_invalid_def is_integer_def eval_nat_numeral
      del: fill_loop.simps)




text \<open>
  C8 fails on the code: \<^verbatim>\<open>typeof null\<close> is \<^verbatim>\<open>'object'\<close>, so \<^verbatim>\<open>dot\<close> lets
  \<^verbatim>\<open>null\<close> through its check of the base and then reads a property of it, which raises
  the host's \<^verbatim>\<open>TypeError\<close>; on \<^verbatim>\<open>undefined\<close> it raises its own error.
\<close>

theorem dot_null_escapes:
  "dot Null (Str ''x'') = Inl TypeError \<and>
   dot Undefined (Str ''x'') =
     Inl (ElementaryRuntimeError [T ''cannot access member of non-object value types''])"
  by (simp add: dot_def)









section \<open>Properties of the Pass\<close>

lemma and_then_Return:
  "and_then m f = Return y \<longleftrightarrow> (\<exists>x. m = Return x \<and> f x = Return y)"
  by (cases m) auto

lemma and_then_Raise:
  "and_then m f = Raise e \<longleftrightarrow> (m = Raise e \<or> (\<exists>x. m = Return x \<and> f x = Raise e))"
  by (cases m) auto

lemma quiet_simps [simp]:
  "quiet OutOfFuel" "quiet (Return x)" "quiet (Raise (HostError s))" "quiet (Raise HostTypeError)"
  by (simp_all add: quiet_def)

lemma quiet_and_then: "quiet m \<Longrightarrow> (\<And>x. quiet (f x)) \<Longrightarrow> quiet (and_then m f)"
  by (cases m) (auto simp: quiet_def)

lemma quiet_State_error [simp]: "quiet (State_error n m st)"
  by (simp add: State_error_def split: option.splits)

lemma quiet_unassign [simp]: "quiet (unassign op)"
  by (simp add: unassign_def)

lemma quiet_push [simp]: "quiet (enclosingScopeBlock_push fp d st)"
  by (simp add: enclosingScopeBlock_push_def)

lemma quiet_enter: "quiet (enter pl n st)"
  by (cases n)
     (auto simp: VariableDeclarator_enter_def CallExpression_enter_def
        AssignmentExpression_enter_def BinaryExpression_enter_def UnaryExpression_enter_def
        UpdateExpression_enter_def loop_enter_def VariableDeclaration_enter_def banned_enter_def
        intro!: quiet_and_then split: node.splits option.splits prod.splits)

lemma quiet_exit: "quiet (exit pl n st)"
  by (cases n)
     (auto simp: MemberExpression_exit_def AssignmentExpression_exit_def BinaryExpression_exit_def
        NewExpression_exit_def UpdateExpression_exit_def
        intro!: quiet_and_then split: node.splits option.splits prod.splits)

lemma quiet_visit_list: "(\<And>x st. quiet (v x st)) \<Longrightarrow> quiet (visit_list v xs st)"
  by (induction xs arbitrary: st) (auto intro!: quiet_and_then)

lemma quiet_visit_opt: "(\<And>x st. quiet (v x st)) \<Longrightarrow> quiet (visit_opt v x st)"
  by (cases x) (auto intro!: quiet_and_then)

lemma quiet_children: "(\<And>pl x st. quiet (v pl x st)) \<Longrightarrow> quiet (children v fp n st)"
  by (cases n) (auto intro!: quiet_and_then quiet_visit_list quiet_visit_opt)

lemma quiet_visit: "quiet (visit k pl n st)"
proof (induction k arbitrary: pl n st)
  case 0
  show ?case by simp
next
  case (Suc k)
  show ?case
    by (auto intro!: quiet_and_then quiet_enter quiet_exit quiet_children Suc
          split: action.splits)
qed

lemma quiet_traverse_program: "quiet (traverse_program k os p)"
  by (cases p) (auto simp: traverse_program_def intro!: quiet_and_then quiet_visit_list quiet_visit)


text \<open>
  C1. Once the traversal of a program has come to its end, the result of the Pass is the
  error object, with the recorded diagnostics, exactly when at least one diagnostic was
  recorded, and a rewritten tree exactly when none was. The \<^verbatim>\<open>State\<close> object is never
  thrown during the traversal: when the Pass throws it, the traversal has come to its end
  and the exit handler of the root has thrown it, with a diagnostic in it.
\<close>

theorem compile_result:
  "(\<forall>e. traverse_program k os p \<noteq> Raise (ThrownState e)) \<and>
   (\<forall>p' st. traverse_program k os p = Return (p', st) \<longrightarrow>
      ((compile k os p = Raise (ThrownState (elem st))) = (elem st \<noteq> [])) \<and>
      ((\<exists>q. compile k os p = Return q) = (elem st = []))) \<and>
   (\<forall>errs. compile k os p = Raise (ThrownState errs) \<longrightarrow>
      errs \<noteq> [] \<and>
      (\<exists>p' st. traverse_program k os p = Return (p', st) \<and> elem st = errs \<and>
         Program_exit p' st = Raise (ThrownState errs)))"
proof (intro conjI allI impI)
  fix e
  show "traverse_program k os p \<noteq> Raise (ThrownState e)"
    using quiet_traverse_program [of k os p] by (simp add: quiet_def)
next
  fix p' st
  assume t: "traverse_program k os p = Return (p', st)"
  obtain l body where p': "p' = Program l body" by (cases p')
  show "(compile k os p = Raise (ThrownState (elem st))) = (elem st \<noteq> [])"
    using t by (simp add: compile_def Program_exit_def p' Let_def)
  show "(\<exists>q. compile k os p = Return q) = (elem st = [])"
    using t by (simp add: compile_def Program_exit_def p' Let_def)
next
  fix errs
  assume c: "compile k os p = Raise (ThrownState errs)"
  have nq: "traverse_program k os p \<noteq> Raise (ThrownState errs)"
    using quiet_traverse_program [of k os p] by (simp add: quiet_def)
  from c nq obtain p' st where t: "traverse_program k os p = Return (p', st)"
    and x: "Program_exit p' st = Raise (ThrownState errs)"
    by (auto simp: compile_def and_then_Raise)
  obtain l body where p': "p' = Program l body" by (cases p')
  from x have e: "elem st = errs" "errs \<noteq> []"
    by (auto simp: Program_exit_def p' Let_def split: if_splits)
  show "errs \<noteq> []" by (rule e)
  show "\<exists>p' st. traverse_program k os p = Return (p', st) \<and> elem st = errs \<and>
         Program_exit p' st = Raise (ThrownState errs)"
    using t x e by blast
qed

theorem compile_result_witness:
  "compile 10 \<lparr>isOnline = False, runTests = False\<rparr>
     (Program (Some 1) [Other ''ExpressionStatement'' (Some 1)
        [UpdateExpression (Some 1) ''++'' False (Identifier (Some 1) ''x'')]]) =
     Raise (ThrownState
       [\<lparr>line = 1, message = ''Do not use post-increment or post-decrement operators.''\<rparr>]) \<and>
   (\<exists>p' st. traverse_program 10 \<lparr>isOnline = False, runTests = False\<rparr>
     (Program (Some 1) [Other ''ExpressionStatement'' (Some 1)
        [UpdateExpression (Some 1) ''++'' False (Identifier (Some 1) ''x'')]]) = Return (p', st) \<and>
      elem st =
       [\<lparr>line = 1, message = ''Do not use post-increment or post-decrement operators.''\<rparr>])"
proof -
  have c: "compile 10 \<lparr>isOnline = False, runTests = False\<rparr>
     (Program (Some 1) [Other ''ExpressionStatement'' (Some 1)
        [UpdateExpression (Some 1) ''++'' False (Identifier (Some 1) ''x'')]]) =
     Raise (ThrownState
       [\<lparr>line = 1, message = ''Do not use post-increment or post-decrement operators.''\<rparr>])"
    by code_simp
  show ?thesis
    using c compile_result [of 10 "\<lparr>isOnline = False, runTests = False\<rparr>"
       "Program (Some 1) [Other ''ExpressionStatement'' (Some 1)
        [UpdateExpression (Some 1) ''++'' False (Identifier (Some 1) ''x'')]]"]
    by blast
qed












lemma finished_iff:
  "finished n \<longleftrightarrow> set (own_operator n) \<subseteq> set strict \<and> (\<forall>k \<in> set (kids n). finished k)"
  unfolding finished_def by (subst binary_operators.simps) auto

lemma no_operators_iff:
  "binary_operators n = [] \<longleftrightarrow> own_operator n = [] \<and> (\<forall>k \<in> set (kids n). binary_operators k = [])"
  by (subst binary_operators.simps) auto


lemma State_error_Return:
  "State_error n m st = Return st' \<Longrightarrow>
     pushed st' = pushed st \<and> elem st' \<noteq> [] \<and> length (elem st) \<le> length (elem st')"
  by (auto simp: State_error_def split: option.splits)

lemma unassign_Return: "unassign op = Return op' \<Longrightarrow> op' \<in> set numOrStringOperators \<union> set numOperators"
  by (auto simp: unassign_def numOrStringOperators_def numOperators_def split: if_splits)

lemma push_Return:
  "enclosingScopeBlock_push fp d st = Return st' \<Longrightarrow>
     pushed st' = pushed st @ [d] \<and> elem st' = elem st"
  by (auto simp: enclosingScopeBlock_push_def split: if_splits)

lemma enter_ok_simple:
  "pushed st1 = pushed st \<Longrightarrow> length (elem st) \<le> length (elem st1) \<Longrightarrow> own_operator n = [] \<Longrightarrow>
   enter_ok n st (Continue n) st1"
  by (simp add: enter_ok_def)

lemma VariableDeclarator_enter_ok:
  "VariableDeclarator_enter (VariableDeclarator l x i) st = Return (a, st1) \<Longrightarrow>
   enter_ok (VariableDeclarator l x i) st a st1"
  by (auto simp: VariableDeclarator_enter_def and_then_Return enter_ok_def
      dest!: State_error_Return split: node.splits if_splits)

lemma CallExpression_enter_ok:
  "CallExpression_enter (CallExpression l f args) st = Return (a, st1) \<Longrightarrow>
   enter_ok (CallExpression l f args) st a st1"
  by (auto simp: CallExpression_enter_def and_then_Return enter_ok_def
      dest!: State_error_Return split: node.splits if_splits)

lemma UnaryExpression_enter_ok:
  "UnaryExpression_enter (UnaryExpression l op x) st = Return (a, st1) \<Longrightarrow>
   enter_ok (UnaryExpression l op x) st a st1"
  by (auto simp: UnaryExpression_enter_def and_then_Return enter_ok_def
      dest!: State_error_Return split: if_splits)

lemma UpdateExpression_enter_ok:
  "UpdateExpression_enter (UpdateExpression l op pre x) st = Return (a, st1) \<Longrightarrow>
   enter_ok (UpdateExpression l op pre x) st a st1"
  by (auto simp: UpdateExpression_enter_def and_then_Return enter_ok_def
      dest!: State_error_Return split: if_splits)

lemma loop_enter_ok:
  "loop_enter n b st = Return (a, st1) \<Longrightarrow> own_operator n = [] \<Longrightarrow> enter_ok n st a st1"
  by (auto simp: loop_enter_def and_then_Return enter_ok_def
      dest!: State_error_Return split: if_splits)

lemma VariableDeclaration_enter_ok:
  "VariableDeclaration_enter (VariableDeclaration l k ds) st = Return (a, st1) \<Longrightarrow>
   enter_ok (VariableDeclaration l k ds) st a st1"
  by (auto simp: VariableDeclaration_enter_def and_then_Return enter_ok_def
      dest!: State_error_Return split: if_splits)

lemma banned_enter_ok:
  "banned_enter (Other ty l ks) st = Return (a, st1) \<Longrightarrow> enter_ok (Other ty l ks) st a st1"
  by (auto simp: banned_enter_def and_then_Return enter_ok_def
      dest!: State_error_Return split: option.splits)

lemma BinaryExpression_enter_ok:
  "BinaryExpression_enter (BinaryExpression l op x y) st = Return (a, st1) \<Longrightarrow>
   enter_ok (BinaryExpression l op x y) st a st1"
  by (auto simp: BinaryExpression_enter_def and_then_Return enter_ok_def strict_def
      allowedBinaryOperators_def generalOperators_def
      dest!: State_error_Return split: if_splits)

lemma AssignmentExpression_enter_ok:
  "AssignmentExpression_enter pl (AssignmentExpression l op x y) st = Return (a, st1) \<Longrightarrow>
   enter_ok (AssignmentExpression l op x y) st a st1"
  by (auto simp: AssignmentExpression_enter_def and_then_Return enter_ok_def
      generateUidIdentifier_def no_operators_iff [of "VariableDeclaration _ _ _"]
      no_operators_iff [of "VariableDeclarator _ _ _"] no_operators_iff [of "Identifier _ _"]
      dest!: State_error_Return push_Return split: if_splits node.splits prod.splits)

lemma enter_ok: "enter pl n st = Return (a, st1) \<Longrightarrow> enter_ok n st a st1"
  by (cases n)
     (auto simp: enter_ok_simple
        intro: VariableDeclarator_enter_ok CallExpression_enter_ok UnaryExpression_enter_ok
          UpdateExpression_enter_ok loop_enter_ok VariableDeclaration_enter_ok banned_enter_ok
          BinaryExpression_enter_ok AssignmentExpression_enter_ok)


lemma finished_leaf [simp]:
  "finished (StringLiteral l s)" "finished (Identifier l s)" "finished (NumericLiteral l i)"
  by (simp_all add: finished_iff [of "StringLiteral _ _"] finished_iff [of "Identifier _ _"]
      finished_iff [of "NumericLiteral _ _"])

















end
